theory Spec2Isabelle
  imports Complex_Main "HOL-Library.AList" "HOL-Library.Char_ord" "HOL-Library.List_Lexorder"
    "HOL-Library.Product_Lexorder" "HOL-Library.Multiset"
begin

section \<open>Values, errors and documents\<close>

text \<open>
  The program is Python over a MongoDB collection.  A stored document and a \<open>Stock\<close>
  (a \<open>UserDict\<close> around one document) are both an insertion-ordered list of
  field/value pairs, read through \<open>map_of\<close>.  A value is one of the kinds a BSON
  document holds, or a complex number, which Python can compute (as a rate) and the
  store refuses; no field of a record is one, and arithmetic on fields treats it like
  any other value that is not a real number.
  Python's \<open>int\<close> and \<open>float\<close> are one constructor \<open>VNum\<close> over the reals: arithmetic
  is exact, so rounding, overflow, infinities and NaN of the binary floating point are
  not represented.  \<open>VBool\<close> stays apart from \<open>VNum\<close> (the store tells \<open>true\<close> from
  \<open>1\<close>) and counts as 0/1 in arithmetic, as in Python.  \<open>VDate d t\<close> is a
  \<open>datetime\<close>: day number and milliseconds since midnight, the resolution of the store
  (the only \<open>datetime\<close> the program creates is a midnight).  \<open>VObjectId n\<close> is the
  \<open>ObjectId\<close> with binary value \<open>n\<close>.  \<open>VObject name\<close> is an attribute of the class
  that is not a computed property, such as a bound method: a Python object that can be
  neither ordered nor stored.
\<close>

datatype pyval =
    VNone
  | VBool bool
  | VNum real
  | VComplex complex
  | VStr string
  | VList "pyval list"
  | VDict "(string \<times> pyval) list"
  | VDate int nat
  | VObjectId nat
  | VObject string

text \<open>
  A string is the list of its UTF-8 bytes.  Equality and order of strings are those of
  Python (which orders by code point), but Python counts and iterates code points: the
  length of a string with a character outside ASCII, and the iteration over it, are left
  out of the model.

  The errors are the exceptions the program can raise, and \<open>Unmodelled\<close>, which is no
  exception of Python: it is the result on the inputs for which this model does not say
  what the program does.
\<close>

definition ascii :: "string \<Rightarrow> bool" where
  "ascii s = list_all (\<lambda>c. (of_char c :: nat) < 128) s"

datatype py_error =
    AttributeError
  | KeyError
  | TypeError
  | ZeroDivisionError
  | AssertionError
  | StatisticsError
  | InvalidDocument
  | DuplicateKeyError
  | WriteError
  | Unmodelled

type_synonym document = "(string \<times> pyval) list"

text \<open>\<open>bool(v)\<close>: what \<open>not v\<close>, \<open>if v\<close>, \<open>a or b\<close> and \<open>a and b\<close> test.\<close>

fun truthy :: "pyval \<Rightarrow> bool" where
  "truthy VNone = False"
| "truthy (VBool b) = b"
| "truthy (VNum x) = (x \<noteq> 0)"
| "truthy (VComplex z) = (z \<noteq> 0)"
| "truthy (VStr s) = (s \<noteq> [])"
| "truthy (VList xs) = (xs \<noteq> [])"
| "truthy (VDict d) = (d \<noteq> [])"
| "truthy (VDate d t) = True"
| "truthy (VObjectId n) = True"
| "truthy (VObject n) = True"

text \<open>The real number a value stands for in arithmetic, if it is an int, float or bool.\<close>

fun num_of :: "pyval \<Rightarrow> real option" where
  "num_of (VNum x) = Some x"
| "num_of (VBool b) = Some (if b then 1 else 0)"
| "num_of v = None"

text \<open>The same, with 0 for what is not a number.\<close>

fun as_real :: "pyval \<Rightarrow> real" where
  "as_real (VNum x) = x"
| "as_real (VBool b) = (if b then 1 else 0)"
| "as_real v = 0"

text \<open>\<open>self.get(key, default)\<close> and \<open>self[key]\<close> of the \<open>UserDict\<close>.\<close>

definition get_field :: "document \<Rightarrow> string \<Rightarrow> pyval \<Rightarrow> pyval" where
  "get_field s k d = (case map_of s k of None \<Rightarrow> d | Some v \<Rightarrow> v)"

definition getitem :: "document \<Rightarrow> string \<Rightarrow> py_error + pyval" where
  "getitem s k = (case map_of s k of None \<Rightarrow> Inl KeyError | Some v \<Rightarrow> Inr v)"

text \<open>Iterating a value (\<open>enumerate(stats)\<close>, a comprehension): a number, a date,
  \<open>None\<close> are not iterable; a string yields its characters, a dict its keys.\<close>

fun py_iter :: "pyval \<Rightarrow> py_error + pyval list" where
  "py_iter (VList xs) = Inr xs"
| "py_iter (VStr s) = (if ascii s then Inr (map (\<lambda>c. VStr [c]) s) else Inl Unmodelled)"
| "py_iter (VDict d) = Inr (map (\<lambda>kv. VStr (fst kv)) d)"
| "py_iter v = Inl TypeError"

section \<open>The Stock model (db.py)\<close>

subsection \<open>year_stat\<close>

text \<open>
  \<open>LAST_YEAR\<close> is computed once from the clock when the module is loaded; it is the
  parameter \<open>ly\<close> of every function that reads it.

  \<open>year = lambda idx: LAST_YEAR - (last_year_index - idx)\<close>: a \<open>TypeError\<close> when
  \<open>last_year_index\<close> is not a number.
\<close>

definition year_of :: "int \<Rightarrow> pyval \<Rightarrow> nat \<Rightarrow> py_error + real" where
  "year_of ly lyi idx =
     (case num_of lyi of
        None \<Rightarrow> Inl TypeError
      | Some l \<Rightarrow> Inr (real_of_int ly - (l - real idx)))"

text \<open>The list comprehension of \<open>year_stat\<close>, from index \<open>idx\<close> on.\<close>

fun year_rows :: "int \<Rightarrow> pyval \<Rightarrow> bool \<Rightarrow> nat \<Rightarrow> pyval list \<Rightarrow> py_error + (real \<times> pyval) list" where
  "year_rows ly lyi ex idx [] = Inr []"
| "year_rows ly lyi ex idx (v # vs) =
     (case year_of ly lyi idx of
        Inl e \<Rightarrow> Inl e
      | Inr y \<Rightarrow>
         (case year_rows ly lyi ex (Suc idx) vs of
            Inl e \<Rightarrow> Inl e
          | Inr rows \<Rightarrow> Inr (if \<not> ex \<or> y \<le> real_of_int ly then (y, v) # rows else rows)))"

definition year_stat :: "int \<Rightarrow> document \<Rightarrow> string \<Rightarrow> bool \<Rightarrow> py_error + (real \<times> pyval) list" where
  "year_stat ly s stat exclude_future =
     (let stats = get_field s stat VNone in
      if \<not> truthy stats then Inr [(0, VNum 0)]
      else
        let last_year_index = get_field s ''last_year_index'' VNone in
        if last_year_index = VNone then Inl AssertionError
        else
          (case py_iter stats of
             Inl e \<Rightarrow> Inl e
           | Inr vs \<Rightarrow> year_rows ly last_year_index exclude_future 0 vs))"

subsection \<open>Constants and numeric helpers\<close>

definition DIVIDEND_TAX_RATE :: real where
  "DIVIDEND_TAX_RATE = 15.40"

definition FUTURE :: int where
  "FUTURE = 10"

definition TARGET_RATE :: real where
  "TARGET_RATE = 15"

text \<open>\<open>int(x)\<close> of a float: truncation towards zero.\<close>

definition py_int :: "real \<Rightarrow> int" where
  "py_int x = (if 0 \<le> x then \<lfloor>x\<rfloor> else \<lceil>x\<rceil>)"

text \<open>\<open>v > 0\<close>: defined between numbers (and bools) only.\<close>

definition py_gt0 :: "pyval \<Rightarrow> py_error + bool" where
  "py_gt0 v = (case num_of v of None \<Rightarrow> Inl TypeError | Some x \<Rightarrow> Inr (0 < x))"

text \<open>\<open>v < 0\<close>, likewise.\<close>

definition py_lt0 :: "pyval \<Rightarrow> py_error + bool" where
  "py_lt0 v = (case num_of v of None \<Rightarrow> Inl TypeError | Some x \<Rightarrow> Inr (x < 0))"

text \<open>\<open>x ** n\<close> for a float \<open>x\<close> and an int \<open>n\<close>.\<close>

definition py_pow_int :: "real \<Rightarrow> int \<Rightarrow> py_error + real" where
  "py_pow_int x n = (if x = 0 \<and> n < 0 then Inl ZeroDivisionError else Inr (x powi n))"

text \<open>
  \<open>x ** e\<close> for floats.  A negative base with a non-integral exponent gives a complex
  number, which CPython computes in polar form: modulus \<open>|x| ** e\<close>, argument \<open>pi * e\<close>.
\<close>

definition py_pow :: "real \<Rightarrow> real \<Rightarrow> py_error + pyval" where
  "py_pow x e =
     (if e = 0 then Inr (VNum 1)
      else if x = 0 then (if e < 0 then Inl ZeroDivisionError else Inr (VNum 0))
      else if 0 < x then Inr (VNum (x powr e))
      else if e = real_of_int \<lfloor>e\<rfloor> then Inr (VNum (x powi \<lfloor>e\<rfloor>))
      else Inr (VComplex (rcis (\<bar>x\<bar> powr e) (pi * e))))"

text \<open>\<open>statistics.mean\<close>: the exact mean; empty data and non-numbers are errors.\<close>

definition mean_py :: "pyval list \<Rightarrow> py_error + real" where
  "mean_py xs =
     (if xs = [] then Inl StatisticsError
      else case those (map num_of xs) of
             None \<Rightarrow> Inl TypeError
           | Some rs \<Rightarrow> Inr (sum_list rs / real (length rs)))"

subsection \<open>The projection chain behind expected_rate\<close>

definition current_price :: "document \<Rightarrow> pyval" where
  "current_price s = get_field s ''current_price'' (VNum 0)"

definition dividend_tax_adjust :: "document \<Rightarrow> py_error + real" where
  "dividend_tax_adjust s =
     (case num_of (get_field s ''dividend_rate'' (VNum 0)) of
        None \<Rightarrow> Inl TypeError
      | Some d \<Rightarrow> Inr (d * (DIVIDEND_TAX_RATE / 100)))"

definition last_four_years_roe :: "int \<Rightarrow> document \<Rightarrow> py_error + pyval list" where
  "last_four_years_roe ly s =
     (case year_stat ly s ''ROEs'' False of
        Inl e \<Rightarrow> Inl e
      | Inr rows \<Rightarrow>
          Inr (map snd (filter (\<lambda>roe. truthy (snd roe) \<and> real_of_int (ly - 3) \<le> fst roe
                                        \<and> fst roe \<le> real_of_int ly) rows)))"

definition mean_roe :: "int \<Rightarrow> document \<Rightarrow> py_error + real" where
  "mean_roe ly s =
     (case last_four_years_roe ly s of
        Inl e \<Rightarrow> Inl e
      | Inr roes \<Rightarrow> if roes \<noteq> [] then mean_py roes else Inr 0)"

definition future_roe :: "int \<Rightarrow> document \<Rightarrow> py_error + real" where
  "future_roe ly s =
     (case mean_roe ly s of
        Inl e \<Rightarrow> Inl e
      | Inr m \<Rightarrow> (case dividend_tax_adjust s of Inl e \<Rightarrow> Inl e | Inr d \<Rightarrow> Inr (m - d)))"

text \<open>
  The expression \<open>self.get('adjusted_future_roe', 0) or self.future_roe\<close>, which
  \<open>calculable\<close> and \<open>calc_future_bps\<close> both evaluate: the override when it is truthy,
  else the computed \<open>future_roe\<close>.
\<close>

definition adjusted_or_future_roe :: "int \<Rightarrow> document \<Rightarrow> py_error + pyval" where
  "adjusted_or_future_roe ly s =
     (let adjusted_future_roe = get_field s ''adjusted_future_roe'' (VNum 0) in
      if truthy adjusted_future_roe then Inr adjusted_future_roe
      else (case future_roe ly s of Inl e \<Rightarrow> Inl e | Inr r \<Rightarrow> Inr (VNum r)))"

definition calculable :: "int \<Rightarrow> document \<Rightarrow> py_error + bool" where
  "calculable ly s =
     (case py_gt0 (get_field s ''bps'' (VNum 0)) of
        Inl e \<Rightarrow> Inl e
      | Inr pos \<Rightarrow>
          if \<not> pos then Inr False
          else (case adjusted_or_future_roe ly s of Inl e \<Rightarrow> Inl e | Inr r \<Rightarrow> py_gt0 r))"

definition calc_future_bps :: "int \<Rightarrow> document \<Rightarrow> int \<Rightarrow> py_error + int" where
  "calc_future_bps ly s future =
     (case calculable ly s of
        Inl e \<Rightarrow> Inl e
      | Inr c \<Rightarrow>
          if \<not> c then Inr 0
          else
            (case num_of (get_field s ''bps'' (VNum 0)) of
               None \<Rightarrow> Inl TypeError
             | Some bps \<Rightarrow>
                 (case adjusted_or_future_roe ly s of
                    Inl e \<Rightarrow> Inl e
                  | Inr r \<Rightarrow>
                      (case num_of r of
                         None \<Rightarrow> Inl TypeError
                       | Some roe \<Rightarrow>
                           (case py_pow_int (1 + (1 * roe / 100)) future of
                              Inl e \<Rightarrow> Inl e
                            | Inr g \<Rightarrow> Inr (py_int (bps * g)))))))"

text \<open>
  \<open>calc_expected_rate(calc_bps, future, price=None)\<close>.  The supplied price is a number or
  absent (\<open>None\<close>); \<open>current_price\<close> comes from the record and may be anything.  Python
  evaluates \<open>calc_bps(future)\<close>, then the division by the price, then \<open>1.0 / future\<close>,
  then the power.
\<close>

definition calc_expected_rate ::
  "document \<Rightarrow> (int \<Rightarrow> py_error + int) \<Rightarrow> int \<Rightarrow> real option \<Rightarrow> py_error + pyval" where
  "calc_expected_rate s calc_bps future price =
     (let price = (case price of
                     None \<Rightarrow> current_price s
                   | Some p \<Rightarrow> if p = 0 then current_price s else VNum p) in
      case calc_bps future of
        Inl e \<Rightarrow> Inl e
      | Inr b \<Rightarrow>
          (case num_of price of
             None \<Rightarrow> Inl TypeError
           | Some p \<Rightarrow>
               if p = 0 then Inl ZeroDivisionError
               else if future = 0 then Inl ZeroDivisionError
               else
                 (case py_pow (real_of_int b / p) (1.0 / real_of_int future) of
                    Inl e \<Rightarrow> Inl e
                  | Inr (VNum r) \<Rightarrow> Inr (VNum ((r - 1) * 100))
                  | Inr (VComplex z) \<Rightarrow> Inr (VComplex ((z - 1) * 100))
                  | Inr v \<Rightarrow> Inl TypeError)))"

definition expected_rate :: "int \<Rightarrow> document \<Rightarrow> py_error + pyval" where
  "expected_rate ly s = calc_expected_rate s (calc_future_bps ly s) FUTURE None"

definition expected_rate_by_price :: "int \<Rightarrow> document \<Rightarrow> real \<Rightarrow> py_error + pyval" where
  "expected_rate_by_price ly s price =
     calc_expected_rate s (calc_future_bps ly s) FUTURE (Some price)"

definition future_bps :: "int \<Rightarrow> document \<Rightarrow> py_error + int" where
  "future_bps ly s = calc_future_bps ly s FUTURE"

definition invest_price :: "int \<Rightarrow> document \<Rightarrow> py_error + int" where
  "invest_price ly s =
     (case calc_future_bps ly s FUTURE of
        Inl e \<Rightarrow> Inl e
      | Inr fbps \<Rightarrow>
          Inr (py_int (real_of_int fbps / ((1 + (1 * TARGET_RATE / 100)) powi FUTURE))))"

subsection \<open>Other computed properties\<close>

text \<open>\<open>len(v)\<close>, and \<open>v == 0\<close> (which never raises).\<close>

fun py_len :: "pyval \<Rightarrow> py_error + nat" where
  "py_len (VStr s) = (if ascii s then Inr (length s) else Inl Unmodelled)"
| "py_len (VList xs) = Inr (length xs)"
| "py_len (VDict d) = Inr (length d)"
| "py_len v = Inl TypeError"

fun py_eq0 :: "pyval \<Rightarrow> bool" where
  "py_eq0 (VNum x) = (x = 0)"
| "py_eq0 (VBool b) = (\<not> b)"
| "py_eq0 (VComplex z) = (z = 0)"
| "py_eq0 v = False"

text \<open>The arrows of \<open>price_arrow\<close> (U+25B2 and U+25BC) as their UTF-8 bytes.\<close>

definition arrow_up :: string where
  "arrow_up = [CHR 0xE2, CHR 0x96, CHR 0xB2]"

definition arrow_down :: string where
  "arrow_down = [CHR 0xE2, CHR 0x96, CHR 0xBC]"

definition object_id :: "document \<Rightarrow> py_error + pyval" where
  "object_id s = getitem s ''_id''"

definition price_arrow :: "document \<Rightarrow> py_error + pyval" where
  "price_arrow s =
     (if py_eq0 (get_field s ''price_diff'' VNone) then Inr (VStr [])
      else (case py_gt0 (get_field s ''price_diff'' VNone) of
              Inl e \<Rightarrow> Inl e
            | Inr up \<Rightarrow> Inr (VStr (if up then arrow_up else arrow_down))))"

definition price_color :: "document \<Rightarrow> py_error + pyval" where
  "price_color s =
     (if py_eq0 (get_field s ''price_diff'' VNone) then Inr (VStr ''black'')
      else (case py_gt0 (get_field s ''price_diff'' VNone) of
              Inl e \<Rightarrow> Inl e
            | Inr up \<Rightarrow> Inr (VStr (if up then ''red'' else ''blue''))))"

definition price_sign :: "document \<Rightarrow> py_error + pyval" where
  "price_sign s =
     (case py_gt0 (get_field s ''price_diff'' VNone) of
        Inl e \<Rightarrow> Inl e
      | Inr up \<Rightarrow> Inr (VStr (if up then ''+'' else [])))"

definition countable_roes :: "document \<Rightarrow> py_error + pyval list" where
  "countable_roes s =
     (case py_iter (get_field s ''ROEs'' (VList [])) of
        Inl e \<Rightarrow> Inl e
      | Inr roes \<Rightarrow> Inr (filter truthy roes))"

text \<open>The comprehension \<open>[p[1] for p in rows if p[1] > 0]\<close> of \<open>low_pbr\<close>,
  \<open>high_pbr\<close> and \<open>calculable_pbr_count\<close> (the last keeps the pairs, and counts).\<close>

fun positive_values :: "(real \<times> pyval) list \<Rightarrow> py_error + pyval list" where
  "positive_values [] = Inr []"
| "positive_values (p # ps) =
     (case py_gt0 (snd p) of
        Inl e \<Rightarrow> Inl e
      | Inr pos \<Rightarrow>
          (case positive_values ps of
             Inl e \<Rightarrow> Inl e
           | Inr vs \<Rightarrow> Inr (if pos then snd p # vs else vs)))"

definition historical_pbrs :: "int \<Rightarrow> document \<Rightarrow> py_error + pyval list" where
  "historical_pbrs ly s =
     (case year_stat ly s ''PBRs'' True of Inl e \<Rightarrow> Inl e | Inr rows \<Rightarrow> positive_values rows)"

text \<open>\<open>min\<close> and \<open>max\<close> of numbers return the first smallest and the first
  largest; of nothing they raise \<open>ValueError\<close>, which the two properties turn into 0.\<close>

definition low_pbr :: "int \<Rightarrow> document \<Rightarrow> py_error + pyval" where
  "low_pbr ly s =
     (case historical_pbrs ly s of
        Inl e \<Rightarrow> Inl e
      | Inr vs \<Rightarrow>
          (case vs of
             [] \<Rightarrow> Inr (VNum 0)
           | v # rest \<Rightarrow>
               Inr (fold (\<lambda>x m. if as_real x < as_real m then x else m) rest v)))"

definition high_pbr :: "int \<Rightarrow> document \<Rightarrow> py_error + pyval" where
  "high_pbr ly s =
     (case historical_pbrs ly s of
        Inl e \<Rightarrow> Inl e
      | Inr vs \<Rightarrow>
          (case vs of
             [] \<Rightarrow> Inr (VNum 0)
           | v # rest \<Rightarrow>
               Inr (fold (\<lambda>x m. if as_real m < as_real x then x else m) rest v)))"

definition mid_pbr :: "int \<Rightarrow> document \<Rightarrow> py_error + pyval" where
  "mid_pbr ly s =
     (case low_pbr ly s of
        Inl e \<Rightarrow> Inl e
      | Inr low \<Rightarrow>
          (case (num_of low, num_of (get_field s ''pbr'' VNone)) of
             (Some l, Some p) \<Rightarrow> Inr (VNum ((l + p) / 2))
           | _ \<Rightarrow> Inl TypeError))"

definition calculable_pbr_count :: "int \<Rightarrow> document \<Rightarrow> py_error + pyval" where
  "calculable_pbr_count ly s =
     (case historical_pbrs ly s of
        Inl e \<Rightarrow> Inl e
      | Inr vs \<Rightarrow> Inr (VNum (real (length vs))))"

text \<open>
  \<open>adjusted_eps\<close>: the weighted mean of the last three historical EPS values.  With a
  value that is not a number the expression raises \<open>TypeError\<close>, at one operator or
  another.
\<close>

definition adjusted_eps :: "int \<Rightarrow> document \<Rightarrow> py_error + int" where
  "adjusted_eps ly s =
     (case year_stat ly s ''EPSs'' True of
        Inl e \<Rightarrow> Inl e
      | Inr rows \<Rightarrow>
          (let past_eps = map snd rows; n = length past_eps in
           if n < 3 then Inr 0
           else
             (case (num_of (past_eps ! (n - 1)), num_of (past_eps ! (n - 2)),
                    num_of (past_eps ! (n - 3))) of
                (Some a, Some b, Some c) \<Rightarrow> Inr (py_int (((a * 3) + (b * 2) + c) / 6))
              | _ \<Rightarrow> Inl TypeError)))"

text \<open>\<open>len(self.get('note', '')) > 0\<close>; whether a string is empty does not depend
  on how its characters are counted.\<close>

definition has_note :: "document \<Rightarrow> py_error + pyval" where
  "has_note s =
     (case get_field s ''note'' (VStr []) of
        VStr note \<Rightarrow> Inr (VBool (note \<noteq> []))
      | v \<Rightarrow> (case py_len v of Inl e \<Rightarrow> Inl e | Inr n \<Rightarrow> Inr (VBool (0 < n))))"

definition mean_per :: "document \<Rightarrow> py_error + pyval" where
  "mean_per s =
     (case py_len (get_field s ''PERs'' (VList [])) of
        Inl e \<Rightarrow> Inl e
      | Inr n \<Rightarrow>
          if 2 < n
          then (case py_iter (get_field s ''PERs'' (VList [])) of
                  Inl e \<Rightarrow> Inl e
                | Inr pers \<Rightarrow> (case mean_py pers of Inl e \<Rightarrow> Inl e | Inr m \<Rightarrow> Inr (VNum m)))
          else Inr (VNum 0))"

definition intrinsic_value :: "int \<Rightarrow> document \<Rightarrow> py_error + int" where
  "intrinsic_value ly s =
     (case adjusted_eps ly s of
        Inl e \<Rightarrow> Inl e
      | Inr eps \<Rightarrow>
          (case num_of (get_field s ''bps'' (VNum 0)) of
             None \<Rightarrow> Inl TypeError
           | Some bps \<Rightarrow> Inr (py_int ((bps + real_of_int (eps * 10)) / 2))))"

text \<open>\<open>(intrinsic_value / current_price ** (1.0 / 1) - 1) * 100\<close>: the power binds
  first, and \<open>x ** 1.0\<close> is \<open>x\<close>.\<close>

definition intrinsic_discount_rate :: "int \<Rightarrow> document \<Rightarrow> py_error + pyval" where
  "intrinsic_discount_rate ly s =
     (case intrinsic_value ly s of
        Inl e \<Rightarrow> Inl e
      | Inr v \<Rightarrow>
          (case num_of (current_price s) of
             None \<Rightarrow> Inl TypeError
           | Some p \<Rightarrow>
               if p = 0 then Inl ZeroDivisionError
               else Inr (VNum ((real_of_int v / p - 1) * 100))))"

definition financial_statements_url :: "document \<Rightarrow> py_error + pyval" where
  "financial_statements_url s =
     (case getitem s ''code'' of
        Inl e \<Rightarrow> Inl e
      | Inr (VStr code) \<Rightarrow>
          Inr (VStr (''http://companyinfo.stock.naver.com/v1/company/ajax/cF1001.aspx?cmp_cd=''
                     @ code @ ''&fin_typ=0&freq_typ=Y''))
      | Inr v \<Rightarrow> Inl Unmodelled)"

text \<open>\<open>min\<close> and \<open>max\<close> of a list of numbers that is not empty.\<close>

definition min_real :: "real list \<Rightarrow> real" where
  "min_real xs = (case xs of [] \<Rightarrow> 0 | x # rest \<Rightarrow> fold min rest x)"

definition max_real :: "real list \<Rightarrow> real" where
  "max_real xs = (case xs of [] \<Rightarrow> 0 | x # rest \<Rightarrow> fold max rest x)"

definition mid_roe :: "document \<Rightarrow> py_error + pyval" where
  "mid_roe s =
     (case countable_roes s of
        Inl e \<Rightarrow> Inl e
      | Inr roes \<Rightarrow>
          if 2 < length roes
          then (case mean_py roes of
                  Inl e \<Rightarrow> Inl e
                | Inr m \<Rightarrow> Inr (VNum ((m + min_real (map as_real roes)) / 2)))
          else Inr (VNum 0))"

text \<open>
  \<open>max(ROEs) - min(ROEs)\<close>: of numbers, their difference.  Values of two kinds cannot
  be compared, and values of one other kind cannot be compared or cannot be subtracted,
  which is \<open>TypeError\<close> either way; except dates, whose difference is a \<open>timedelta\<close>.
\<close>

definition roe_max_diff :: "document \<Rightarrow> py_error + pyval" where
  "roe_max_diff s =
     (case countable_roes s of
        Inl e \<Rightarrow> Inl e
      | Inr roes \<Rightarrow>
          if 2 < length roes
          then (if list_all (\<lambda>v. num_of v \<noteq> None) roes
                then Inr (VNum (max_real (map as_real roes) - min_real (map as_real roes)))
                else if list_all (\<lambda>v. case v of VDate d t \<Rightarrow> True | _ \<Rightarrow> False) roes then Inl Unmodelled
                else Inl TypeError)
          else Inr (VNum 0))"

text \<open>
  The terms \<open>y / x - 1\<close> of \<open>eps_growth\<close> over the consecutive pairs, in order; the
  first term that fails decides the error.
\<close>

fun growth_terms :: "pyval list \<Rightarrow> py_error + real list" where
  "growth_terms (x # y # rest) =
     (case (num_of x, num_of y) of
        (Some a, Some b) \<Rightarrow>
          if a = 0 then Inl ZeroDivisionError
          else (case growth_terms (y # rest) of
                  Inl e \<Rightarrow> Inl e
                | Inr ts \<Rightarrow> Inr ((b / a - 1) # ts))
      | _ \<Rightarrow> Inl TypeError)"
| "growth_terms xs = Inr []"

text \<open>
  \<open>eps_growth\<close>: \<open>ZeroDivisionError\<close> is caught and gives 0; the mean of no term at
  all (a series of one entry or none) is the \<open>StatisticsError\<close> of \<open>statistics.mean\<close>,
  which is not caught.  Slicing a dict differs between interpreter versions.
\<close>

definition eps_growth :: "document \<Rightarrow> py_error + real" where
  "eps_growth s =
     (case get_field s ''EPSs'' (VList [VNum 0, VNum 0]) of
        VList epss \<Rightarrow>
          (case growth_terms epss of
             Inl e \<Rightarrow> if e = ZeroDivisionError then Inr 0 else Inl e
           | Inr ts \<Rightarrow>
               if ts = [] then Inl StatisticsError
               else Inr (sum_list ts / real (length ts) * 100))
      | VStr str \<Rightarrow> if str = [] then Inl StatisticsError else Inl Unmodelled
      | VDict d \<Rightarrow> Inl Unmodelled
      | _ \<Rightarrow> Inl TypeError)"

definition peg_current_per :: "document \<Rightarrow> py_error + pyval" where
  "peg_current_per s =
     (case eps_growth s of
        Inl e \<Rightarrow> Inl e
      | Inr g \<Rightarrow>
          if g \<noteq> 0
          then (case num_of (get_field s ''per'' (VNum 0)) of
                  None \<Rightarrow> Inl TypeError
                | Some per \<Rightarrow> Inr (VNum (per / g)))
          else Inr (VNum 0))"

definition peg_mean_per :: "document \<Rightarrow> py_error + pyval" where
  "peg_mean_per s =
     (case eps_growth s of
        Inl e \<Rightarrow> Inl e
      | Inr g \<Rightarrow>
          if g \<noteq> 0
          then (case mean_per s of
                  Inl e \<Rightarrow> Inl e
                | Inr m \<Rightarrow> Inr (VNum (as_real m / g)))
          else Inr (VNum 0))"

subsection \<open>The PBR-driven price projections\<close>

text \<open>
  \<open>int(n * v)\<close> for an int \<open>n\<close> and a field value \<open>v\<close>.  An int times a string is
  a repeated string, which \<open>int\<close> may or may not parse: not in this model.
\<close>

definition int_times :: "int \<Rightarrow> pyval \<Rightarrow> py_error + int" where
  "int_times n v =
     (case v of
        VStr str \<Rightarrow> Inl Unmodelled
      | _ \<Rightarrow> (case num_of v of
                None \<Rightarrow> Inl TypeError
              | Some x \<Rightarrow> Inr (py_int (real_of_int n * x))))"

definition calc_future_price_low_pbr :: "int \<Rightarrow> document \<Rightarrow> int \<Rightarrow> py_error + int" where
  "calc_future_price_low_pbr ly s future =
     (case calc_future_bps ly s future of
        Inl e \<Rightarrow> Inl e
      | Inr b \<Rightarrow> (case low_pbr ly s of Inl e \<Rightarrow> Inl e | Inr pbr \<Rightarrow> int_times b pbr))"

definition calc_future_price_high_pbr :: "int \<Rightarrow> document \<Rightarrow> int \<Rightarrow> py_error + int" where
  "calc_future_price_high_pbr ly s future =
     (case calc_future_bps ly s future of
        Inl e \<Rightarrow> Inl e
      | Inr b \<Rightarrow> (case high_pbr ly s of Inl e \<Rightarrow> Inl e | Inr pbr \<Rightarrow> int_times b pbr))"

definition calc_future_price_current_pbr :: "int \<Rightarrow> document \<Rightarrow> int \<Rightarrow> py_error + int" where
  "calc_future_price_current_pbr ly s future =
     (case calc_future_bps ly s future of
        Inl e \<Rightarrow> Inl e
      | Inr b \<Rightarrow> (case getitem s ''pbr'' of Inl e \<Rightarrow> Inl e | Inr pbr \<Rightarrow> int_times b pbr))"

definition calc_future_price_low_current_mid_pbr :: "int \<Rightarrow> document \<Rightarrow> int \<Rightarrow> py_error + int" where
  "calc_future_price_low_current_mid_pbr ly s future =
     (case calc_future_bps ly s future of
        Inl e \<Rightarrow> Inl e
      | Inr b \<Rightarrow> (case mid_pbr ly s of Inl e \<Rightarrow> Inl e | Inr pbr \<Rightarrow> int_times b pbr))"

definition calc_future_price_adjusted_future_pbr :: "int \<Rightarrow> document \<Rightarrow> int \<Rightarrow> py_error + int" where
  "calc_future_price_adjusted_future_pbr ly s future =
     (case calc_future_bps ly s future of
        Inl e \<Rightarrow> Inl e
      | Inr b \<Rightarrow> int_times b (get_field s ''adjusted_future_pbr'' (VNum 0)))"

definition expected_rate_by_current_pbr :: "int \<Rightarrow> document \<Rightarrow> py_error + pyval" where
  "expected_rate_by_current_pbr ly s =
     calc_expected_rate s (calc_future_price_current_pbr ly s) FUTURE None"

definition expected_rate_by_low_pbr :: "int \<Rightarrow> document \<Rightarrow> py_error + pyval" where
  "expected_rate_by_low_pbr ly s =
     calc_expected_rate s (calc_future_price_low_pbr ly s) FUTURE None"

definition expected_rate_by_mid_pbr :: "int \<Rightarrow> document \<Rightarrow> py_error + pyval" where
  "expected_rate_by_mid_pbr ly s =
     calc_expected_rate s (calc_future_price_low_current_mid_pbr ly s) FUTURE None"

definition expected_rate_by_adjusted_future_pbr :: "int \<Rightarrow> document \<Rightarrow> py_error + pyval" where
  "expected_rate_by_adjusted_future_pbr ly s =
     calc_expected_rate s (calc_future_price_adjusted_future_pbr ly s) FUTURE None"

subsection \<open>Attribute lookup and the sort key\<close>

text \<open>
  \<open>getattr(obj, name)\<close> on a \<open>Stock\<close>.  A computed property is evaluated.  The
  properties whose values are built from tuples (the year-aligned series, the F-scores,
  the quarterly series) are not in this model: asking for one is the error
  \<open>Unmodelled\<close>.
\<close>

definition lift_real :: "py_error + real \<Rightarrow> py_error + pyval" where
  "lift_real r = (case r of Inl e \<Rightarrow> Inl e | Inr x \<Rightarrow> Inr (VNum x))"

definition lift_int :: "py_error + int \<Rightarrow> py_error + pyval" where
  "lift_int r = (case r of Inl e \<Rightarrow> Inl e | Inr n \<Rightarrow> Inr (VNum (real_of_int n)))"

definition lift_bool :: "py_error + bool \<Rightarrow> py_error + pyval" where
  "lift_bool r = (case r of Inl e \<Rightarrow> Inl e | Inr b \<Rightarrow> Inr (VBool b))"

definition lift_list :: "py_error + pyval list \<Rightarrow> py_error + pyval" where
  "lift_list r = (case r of Inl e \<Rightarrow> Inl e | Inr xs \<Rightarrow> Inr (VList xs))"

definition stock_properties :: "int \<Rightarrow> (string \<times> (document \<Rightarrow> py_error + pyval)) list" where
  "stock_properties ly =
     [(''object_id'', object_id),
      (''current_price'', \<lambda>s. Inr (current_price s)),
      (''price_arrow'', price_arrow),
      (''price_color'', price_color),
      (''price_sign'', price_sign),
      (''countable_roes'', \<lambda>s. lift_list (countable_roes s)),
      (''low_pbr'', low_pbr ly),
      (''high_pbr'', high_pbr ly),
      (''mid_pbr'', mid_pbr ly),
      (''adjusted_eps'', \<lambda>s. lift_int (adjusted_eps ly s)),
      (''has_note'', has_note),
      (''mean_per'', mean_per),
      (''dividend_tax_adjust'', \<lambda>s. lift_real (dividend_tax_adjust s)),
      (''last_four_years_roe'', \<lambda>s. lift_list (last_four_years_roe ly s)),
      (''calculated_roe_count'',
         \<lambda>s. (case last_four_years_roe ly s of
                 Inl e \<Rightarrow> Inl e
               | Inr roes \<Rightarrow> Inr (VNum (real (length roes))))),
      (''calculable_pbr_count'', calculable_pbr_count ly),
      (''mean_roe'', \<lambda>s. lift_real (mean_roe ly s)),
      (''future_roe'', \<lambda>s. lift_real (future_roe ly s)),
      (''expected_rate'', expected_rate ly),
      (''invest_price'', \<lambda>s. lift_int (invest_price ly s)),
      (''intrinsic_value'', \<lambda>s. lift_int (intrinsic_value ly s)),
      (''intrinsic_discount_rate'', intrinsic_discount_rate ly),
      (''calculable'', \<lambda>s. lift_bool (calculable ly s)),
      (''future_bps'', \<lambda>s. lift_int (future_bps ly s)),
      (''financial_statements_url'', financial_statements_url),
      (''mid_roe'', mid_roe),
      (''eps_growth'', \<lambda>s. lift_real (eps_growth s)),
      (''expected_rate_by_current_pbr'', expected_rate_by_current_pbr ly),
      (''expected_rate_by_low_pbr'', expected_rate_by_low_pbr ly),
      (''expected_rate_by_mid_pbr'', expected_rate_by_mid_pbr ly),
      (''expected_rate_by_adjusted_future_pbr'', expected_rate_by_adjusted_future_pbr ly),
      (''peg_current_per'', peg_current_per),
      (''peg_mean_per'', peg_mean_per),
      (''roe_max_diff'', roe_max_diff)]"

definition unmodelled_properties :: "string list" where
  "unmodelled_properties =
     [''roes'', ''pbrs'', ''pers'', ''epss'', ''latest_fscore'', ''fscores'', ''QROEs'']"

text \<open>The methods of \<open>Stock\<close> and the public attributes it inherits from
  \<open>UserDict\<close>.\<close>

definition other_attributes :: "string list" where
  "other_attributes =
     [''expected_rate_by_price'', ''calc_future_bps'', ''calc_future_price_low_pbr'',
      ''calc_future_price_high_pbr'', ''calc_future_price_current_pbr'',
      ''calc_future_price_low_current_mid_pbr'', ''calc_future_price_adjusted_future_pbr'',
      ''calc_expected_rate'', ''ten_year_prices'', ''fscore'', ''year_stat'', ''save_record'',
      ''data'', ''get'', ''keys'', ''items'', ''values'', ''pop'', ''popitem'', ''clear'',
      ''update'', ''setdefault'', ''copy'', ''fromkeys'']"

text \<open>
  A name that starts with an underscore may be one of the attributes that Python's
  object model gives every instance (\<open>__class__\<close>, \<open>__dict__\<close>, ...); which ones exist
  depends on the interpreter.  Only \<open>_id\<close>, which is no attribute, is in the model.
\<close>

definition getattr_stock :: "int \<Rightarrow> string \<Rightarrow> document \<Rightarrow> py_error + pyval" where
  "getattr_stock ly name obj =
     (case map_of (stock_properties ly) name of
        Some property \<Rightarrow> property obj
      | None \<Rightarrow>
          if name \<in> set unmodelled_properties then Inl Unmodelled
          else if name \<in> set other_attributes then Inr (VObject name)
          else if name \<noteq> [] \<and> hd name = CHR ''_'' \<and> name \<noteq> ''_id'' then Inl Unmodelled
          else Inl AttributeError)"

definition attr_or_key_getter :: "int \<Rightarrow> string \<Rightarrow> document \<Rightarrow> py_error + pyval" where
  "attr_or_key_getter ly name obj =
     (case getattr_stock ly name obj of
        Inl e \<Rightarrow> if e = AttributeError then Inr (get_field obj name (VNum 0)) else Inl e
      | Inr v \<Rightarrow> Inr v)"

subsection \<open>sorted\<close>

text \<open>
  \<open>sorted(xs, key=..., reverse=...)\<close> computes every key first, then sorts stably;
  with \<open>reverse\<close> it reverses the list, sorts, and reverses the result, so equal keys
  keep their order either way.  Comparing keys raises \<open>TypeError\<close> unless both are
  numbers, both strings, both dates or both ids (or both lists).  A sort that ends has
  compared every two neighbours of its result, so it raises whenever two or more keys
  are not all of one such kind.  Lists compare element by element; sorting by keys
  that are lists is not in this model.
\<close>

datatype key_class = Numeric | Text | Date | Oid | Sequence | Unorderable

fun class_of :: "pyval \<Rightarrow> key_class" where
  "class_of (VNum x) = Numeric"
| "class_of (VBool b) = Numeric"
| "class_of (VStr s) = Text"
| "class_of (VDate d t) = Date"
| "class_of (VObjectId n) = Oid"
| "class_of (VList xs) = Sequence"
| "class_of v = Unorderable"

fun as_text :: "pyval \<Rightarrow> string" where
  "as_text (VStr s) = s"
| "as_text v = []"

fun as_date :: "pyval \<Rightarrow> int \<times> nat" where
  "as_date (VDate d t) = (d, t)"
| "as_date v = (0, 0)"

fun as_oid :: "pyval \<Rightarrow> nat" where
  "as_oid (VObjectId n) = n"
| "as_oid v = 0"

definition sort_by :: "('a \<Rightarrow> 'k::linorder) \<Rightarrow> bool \<Rightarrow> 'a list \<Rightarrow> 'a list" where
  "sort_by f reverse xs = (if reverse then rev (sort_key f (rev xs)) else sort_key f xs)"

definition py_sorted :: "(pyval \<times> 'a) list \<Rightarrow> bool \<Rightarrow> py_error + 'a list" where
  "py_sorted kxs reverse =
     (if length kxs \<le> 1 then Inr (map snd kxs)
      else if list_ex (\<lambda>kx. class_of (fst kx) \<noteq> class_of (fst (hd kxs))) kxs then Inl TypeError
      else
        (case class_of (fst (hd kxs)) of
           Numeric \<Rightarrow> Inr (map snd (sort_by (\<lambda>kx. as_real (fst kx)) reverse kxs))
         | Text \<Rightarrow> Inr (map snd (sort_by (\<lambda>kx. as_text (fst kx)) reverse kxs))
         | Date \<Rightarrow> Inr (map snd (sort_by (\<lambda>kx. as_date (fst kx)) reverse kxs))
         | Oid \<Rightarrow> Inr (map snd (sort_by (\<lambda>kx. as_oid (fst kx)) reverse kxs))
         | Sequence \<Rightarrow> Inl Unmodelled
         | Unorderable \<Rightarrow> Inl TypeError))"



section \<open>The document store (the pymongo collection db.stocks)\<close>

text \<open>
  The collection is the list of its documents in natural order.  The program queries it
  with \<open>{field: value}\<close> and \<open>{'$or': [...]}\<close> only.  An equality condition matches a
  document whose field equals the value or is an array that contains it; the value
  \<open>None\<close> also matches a document without the field.
\<close>

type_synonym store = "document list"

datatype query = QEq string pyval | QOr "query list"

fun matches :: "document \<Rightarrow> query \<Rightarrow> bool" where
  "matches d (QEq k v) =
     (case map_of d k of
        None \<Rightarrow> v = VNone
      | Some w \<Rightarrow> w = v \<or> (case w of VList ws \<Rightarrow> v \<in> set ws | _ \<Rightarrow> False))"
| "matches d (QOr qs) = (\<exists>q \<in> set qs. matches d q)"

text \<open>\<open>db.stocks.find(find) if find else db.stocks.find()\<close>\<close>

definition find_docs :: "query option \<Rightarrow> store \<Rightarrow> document list" where
  "find_docs fnd st = (case fnd of None \<Rightarrow> st | Some q \<Rightarrow> filter (\<lambda>d. matches d q) st)"

definition find_one :: "query \<Rightarrow> store \<Rightarrow> document option" where
  "find_one q st = (case filter (\<lambda>d. matches d q) st of [] \<Rightarrow> None | d # ds \<Rightarrow> Some d)"

text \<open>What the driver can encode: everything but a complex number and a method.\<close>

fun encodable :: "pyval \<Rightarrow> bool" where
  "encodable (VComplex z) = False"
| "encodable (VObject n) = False"
| "encodable (VList xs) = list_all encodable xs"
| "encodable (VDict d) = list_all (\<lambda>kv. encodable (snd kv)) d"
| "encodable v = True"

text \<open>
  Field names that the store does not take as plain top-level names: the empty name, a
  name with a dot (a path into an embedded document) and a name that starts with a
  dollar sign (an operator).  What the store does with them is outside this model.
\<close>

definition plain_key :: "string \<Rightarrow> bool" where
  "plain_key k = (k \<noteq> [] \<and> hd k \<noteq> CHR ''$'' \<and> CHR ''.'' \<notin> set k)"

definition writable :: "document \<Rightarrow> py_error + unit" where
  "writable doc =
     (if \<not> list_all (\<lambda>kv. encodable (snd kv)) doc then Inl InvalidDocument
      else if \<not> list_all (\<lambda>kv. plain_key (fst kv)) doc then Inl Unmodelled
      else Inr ())"

text \<open>
  \<open>{'$set': upd}\<close> applied to one document: every field of \<open>upd\<close> is written, in
  place when the document has it and as a new field otherwise; \<open>_id\<close> cannot change.
  (The order of the fields of a document carries no meaning here; \<open>foldr\<close> makes the
  first pair of a name in \<open>upd\<close> the one that counts, as \<open>map_of\<close> does.)
\<close>

definition set_fields :: "document \<Rightarrow> document \<Rightarrow> py_error + document" where
  "set_fields upd d =
     (case map_of upd ''_id'' of
        None \<Rightarrow> Inr (foldr (\<lambda>kv. AList.update (fst kv) (snd kv)) upd d)
      | Some i \<Rightarrow>
          if map_of d ''_id'' = Some i
          then Inr (foldr (\<lambda>kv. AList.update (fst kv) (snd kv)) upd d)
          else Inl WriteError)"

text \<open>\<open>update_one(q, {'$set': upd})\<close> on the documents: the first match is updated.\<close>

fun update_first :: "query \<Rightarrow> document \<Rightarrow> store \<Rightarrow> py_error + store" where
  "update_first q upd [] = Inr []"
| "update_first q upd (d # ds) =
     (if matches d q
      then (case set_fields upd d of Inl e \<Rightarrow> Inl e | Inr d' \<Rightarrow> Inr (d' # ds))
      else (case update_first q upd ds of Inl e \<Rightarrow> Inl e | Inr ds' \<Rightarrow> Inr (d # ds')))"

definition update_one :: "query \<Rightarrow> document \<Rightarrow> store \<Rightarrow> py_error + store" where
  "update_one q upd st =
     (case writable upd of Inl e \<Rightarrow> Inl e | Inr u \<Rightarrow> update_first q upd st)"

text \<open>
  \<open>insert_one(doc)\<close>: a document without \<open>_id\<close> gets a new \<open>ObjectId\<close>, one that no
  document of the collection has; an \<open>_id\<close> that is already there is refused.
\<close>

fun oid_of :: "document \<Rightarrow> nat" where
  "oid_of d = (case map_of d ''_id'' of Some (VObjectId n) \<Rightarrow> Suc n | _ \<Rightarrow> 0)"

definition fresh_oid :: "store \<Rightarrow> nat" where
  "fresh_oid st = fold max (map oid_of st) 0"

definition insert_one :: "document \<Rightarrow> store \<Rightarrow> py_error + store" where
  "insert_one doc st =
     (case writable doc of
        Inl e \<Rightarrow> Inl e
      | Inr u \<Rightarrow>
          (case map_of doc ''_id'' of
             None \<Rightarrow> Inr (st @ [(''_id'', VObjectId (fresh_oid st)) # doc])
           | Some i \<Rightarrow>
               if list_ex (\<lambda>d. map_of d ''_id'' = Some i) st then Inl DuplicateKeyError
               else Inr (st @ [doc])))"

subsection \<open>stock_by_code and save_stock (db.py)\<close>

text \<open>
  \<open>Stock(d)\<close> is \<open>UserDict.__init__(self, d)\<close>: it starts from an empty dict and copies
  \<open>d\<close> into it when \<open>d is not None\<close>.  So \<open>Stock(None)\<close> is an empty \<open>Stock\<close>.
\<close>

definition Stock :: "document option \<Rightarrow> document" where
  "Stock d = (case d of None \<Rightarrow> [] | Some doc \<Rightarrow> doc)"

definition stock_by_code :: "pyval \<Rightarrow> store \<Rightarrow> document" where
  "stock_by_code code st = Stock (find_one (QEq ''code'' code) st)"

text \<open>
  \<open>save_stock(stock)\<close> returns the reloaded record; the collection after the call is
  the first component of the result.  \<open>if exist:\<close> tests a dict, true when it is there
  and not empty.
\<close>

definition save_stock :: "document \<Rightarrow> store \<Rightarrow> py_error + (store \<times> document)" where
  "save_stock stock st =
     (case getitem stock ''code'' of
        Inl e \<Rightarrow> Inl e
      | Inr code \<Rightarrow>
          (case (case find_one (QEq ''code'' code) st of
                   None \<Rightarrow> insert_one stock st
                 | Some exist \<Rightarrow>
                     if exist \<noteq> []
                     then (case getitem exist ''code'' of
                             Inl e \<Rightarrow> Inl e
                           | Inr c \<Rightarrow> update_one (QEq ''code'' c) stock st)
                     else insert_one stock st) of
             Inl e \<Rightarrow> Inl e
           | Inr st' \<Rightarrow> Inr (st', stock_by_code code st')))"

subsection \<open>all_stocks (db.py)\<close>

text \<open>
  The comprehension \<open>[Stock(s) for s in dicts if filter_func(s)]\<close>: the test is
  \<open>Stock(s).expected_rate > 0\<close> when \<open>filter_bad\<close> is set and \<open>< 0\<close> otherwise, on
  every fetched document in order; the first error ends the call.
\<close>

fun filter_stocks :: "int \<Rightarrow> bool \<Rightarrow> document list \<Rightarrow> py_error + document list" where
  "filter_stocks ly filter_bad [] = Inr []"
| "filter_stocks ly filter_bad (s # dicts) =
     (case expected_rate ly (Stock (Some s)) of
        Inl e \<Rightarrow> Inl e
      | Inr rate \<Rightarrow>
          (case (if filter_bad then py_gt0 rate else py_lt0 rate) of
             Inl e \<Rightarrow> Inl e
           | Inr keep \<Rightarrow>
               (case filter_stocks ly filter_bad dicts of
                  Inl e \<Rightarrow> Inl e
                | Inr stocks \<Rightarrow> Inr (if keep then Stock (Some s) # stocks else stocks))))"

text \<open>The keys \<open>partial(attr_or_key_getter, order_by)\<close> of the kept stocks, in order.\<close>

fun sort_keys :: "int \<Rightarrow> string \<Rightarrow> document list \<Rightarrow> py_error + (pyval \<times> document) list" where
  "sort_keys ly order_by [] = Inr []"
| "sort_keys ly order_by (s # stocks) =
     (case attr_or_key_getter ly order_by s of
        Inl e \<Rightarrow> Inl e
      | Inr k \<Rightarrow>
          (case sort_keys ly order_by stocks of
             Inl e \<Rightarrow> Inl e
           | Inr kxs \<Rightarrow> Inr ((k, s) # kxs)))"

definition all_stocks ::
  "int \<Rightarrow> string \<Rightarrow> string \<Rightarrow> query option \<Rightarrow> bool \<Rightarrow> store \<Rightarrow> py_error + document list" where
  "all_stocks ly order_by ordr fnd filter_bad st =
     (case filter_stocks ly filter_bad (find_docs fnd st) of
        Inl e \<Rightarrow> Inl e
      | Inr stocks \<Rightarrow>
          (case sort_keys ly order_by stocks of
             Inl e \<Rightarrow> Inl e
           | Inr kxs \<Rightarrow> py_sorted kxs (ordr \<noteq> ''asc'')))"

subsection \<open>save_record (db.py)\<close>

text \<open>
  The snapshot dict that \<open>save_record\<close> builds; \<open>today\<close> is the clock's date at
  midnight, \<open>fr\<close> and \<open>er\<close> are the values of \<open>self.future_roe\<close> and
  \<open>self.expected_rate\<close>.
\<close>

definition snapshot :: "int \<Rightarrow> document \<Rightarrow> real \<Rightarrow> pyval \<Rightarrow> pyval" where
  "snapshot day s fr er =
     VDict [(''date'', VDate day 0),
            (''buy'', VNum 0),
            (''sell'', VNum 0),
            (''bps'', get_field s ''bps'' (VNum 0)),
            (''current_price'', current_price s),
            (''future_roe'', VNum fr),
            (''roe'', get_field s ''roe'' (VNum 0)),
            (''pbr'', get_field s ''pbr'' (VNum 0)),
            (''expected_rate'', er)]"

text \<open>
  \<open>if len(records) > 0 and records[-1]['date'] == today: records[-1] = record\<close>,
  \<open>else: records.append(record)\<close>.  The field is a list in a well-formed record; the
  other cases are what Python does with a string, a dict or a scalar there.
\<close>

definition append_record :: "pyval \<Rightarrow> pyval \<Rightarrow> pyval \<Rightarrow> py_error + pyval" where
  "append_record today record records =
     (case records of
        VList rs \<Rightarrow>
          if rs = [] then Inr (VList [record])
          else (case last rs of
                  VDict e \<Rightarrow>
                    (case map_of e ''date'' of
                       None \<Rightarrow> Inl KeyError
                     | Some dt \<Rightarrow>
                         if dt = today then Inr (VList (butlast rs @ [record]))
                         else Inr (VList (rs @ [record])))
                | _ \<Rightarrow> Inl TypeError)
      | VStr str \<Rightarrow> if str = [] then Inl AttributeError else Inl TypeError
      | VDict e \<Rightarrow> if e = [] then Inl AttributeError else Inl KeyError
      | _ \<Rightarrow> Inl TypeError)"

text \<open>
  \<open>save_record\<close> at the calendar day \<open>day\<close>.  It returns nothing; the result here is
  the instance and the collection after the call.  The list that \<open>records[-1] = ...\<close>
  and \<open>append\<close> change is the one the instance holds, when it holds one; the default
  \<open>[]\<close> of \<open>self.get('records', [])\<close> is a new list.
\<close>

definition save_record :: "int \<Rightarrow> int \<Rightarrow> document \<Rightarrow> store \<Rightarrow> py_error + (document \<times> store)" where
  "save_record ly day s st =
     (let starred = get_field s ''starred'' (VBool False);
          owned = get_field s ''owned'' (VBool False)
      in
      if \<not> truthy starred \<and> \<not> truthy owned then Inr (s, st)
      else
        (case future_roe ly s of
           Inl e \<Rightarrow> Inl e
         | Inr fr \<Rightarrow>
        (case expected_rate ly s of
           Inl e \<Rightarrow> Inl e
         | Inr er \<Rightarrow>
        (case append_record (VDate day 0) (snapshot day s fr er)
                (get_field s ''records'' (VList [])) of
           Inl e \<Rightarrow> Inl e
         | Inr records \<Rightarrow>
        (case save_stock [(''code'', get_field s ''code'' VNone), (''records'', records)] st of
           Inl e \<Rightarrow> Inl e
         | Inr (st', reloaded) \<Rightarrow>
             Inr (if map_of s ''records'' = None then s
                  else AList.update ''records'' records s, st'))))))"


section \<open>The routes (app.py)\<close>


text \<open>
  Calling what \<open>getattr\<close> returned, for a call without arguments: \<open>save_record\<close> is
  the one method of that kind modelled here; a value that is no method is not callable.
\<close>

definition call_method :: "int \<Rightarrow> int \<Rightarrow> pyval \<Rightarrow> document \<Rightarrow> store \<Rightarrow> py_error + store" where
  "call_method ly day m s st =
     (case m of
        VObject name \<Rightarrow>
          if name = ''save_record''
          then (case save_record ly day s st of Inl e \<Rightarrow> Inl e | Inr (s', st') \<Rightarrow> Inr st')
          else Inl Unmodelled
      | _ \<Rightarrow> Inl TypeError)"

text \<open>
  \<open>stocks_fill_snowball_stats()\<close>, the route \<open>/stocks/fill\<close>:
  \<open>[s.fill_snowball_stat() for s in db.all_stocks()]\<close> and the redirect.  \<open>all_stocks()\<close>
  takes its defaults: \<open>order_by='title'\<close>, \<open>ordering='asc'\<close>, no \<open>find\<close>,
  \<open>filter_bad=True\<close>.
\<close>

fun fill_each :: "int \<Rightarrow> int \<Rightarrow> document list \<Rightarrow> store \<Rightarrow> py_error + store" where
  "fill_each ly day [] st = Inr st"
| "fill_each ly day (s # stocks) st =
     (case getattr_stock ly ''fill_snowball_stat'' s of
        Inl e \<Rightarrow> Inl e
      | Inr m \<Rightarrow>
          (case call_method ly day m s st of
             Inl e \<Rightarrow> Inl e
           | Inr st' \<Rightarrow> fill_each ly day stocks st'))"

definition stocks_fill_snowball_stats :: "int \<Rightarrow> int \<Rightarrow> store \<Rightarrow> py_error + store" where
  "stocks_fill_snowball_stats ly day st =
     (case all_stocks ly ''title'' ''asc'' None True st of
        Inl e \<Rightarrow> Inl e
      | Inr stocks \<Rightarrow> fill_each ly day stocks st)"

text \<open>
  \<open>stocks(status)\<close>, the list routes: the status selects the \<open>find\<close> filter, and
  \<open>filter_bad\<close> is \<open>status != 'bad'\<close>.  The result is the list handed to the template.
\<close>

definition status_filter :: "string option \<Rightarrow> query option" where
  "status_filter status =
     (if status = Some ''starred'' then Some (QEq ''starred'' (VBool True))
      else if status = Some ''owned'' then Some (QEq ''owned'' (VBool True))
      else if status = Some ''starredorowned''
      then Some (QOr [QEq ''starred'' (VBool True), QEq ''owned'' (VBool True)])
      else if status = Some ''doubtful'' then Some (QEq ''doubtful'' (VBool True))
      else None)"

definition stocks :: "int \<Rightarrow> string option \<Rightarrow> string \<Rightarrow> string \<Rightarrow> store \<Rightarrow> py_error + document list" where
  "stocks ly status order_by ordr st =
     all_stocks ly order_by ordr (status_filter status) (status \<noteq> Some ''bad'') st"


section \<open>Properties of year_stat\<close>

lemma year_rows_num:
  "year_rows ly (VNum l) ex idx vs =
     Inr (filter (\<lambda>p. \<not> ex \<or> fst p \<le> real_of_int ly)
            (map (\<lambda>i. (real_of_int ly - (l - real (idx + i)), vs ! i)) [0..<length vs]))"
proof (induction vs arbitrary: idx)
  case Nil
  show ?case by simp
next
  case (Cons v vs)
  have shift: "map (\<lambda>i. (real_of_int ly - (l - real (idx + i)), (v # vs) ! i)) [0..<length (v # vs)]
      = (real_of_int ly - (l - real idx), v)
        # map (\<lambda>i. (real_of_int ly - (l - real (Suc idx + i)), vs ! i)) [0..<length vs]"
    by (simp add: upt_conv_Cons map_Suc_upt [symmetric] del: upt_Suc)
  show ?case
    unfolding shift by (simp add: year_of_def Cons.IH)
qed

text \<open>
  Claim C3.  \<open>year_stat(stat, exclude_future)\<close> returns the single pair \<open>(0, 0)\<close> when
  the named series is absent or empty.  For a non-empty series it raises the assertion
  failure when \<open>last_year_index\<close> is absent (or \<open>None\<close>), and otherwise returns, for
  every index \<open>i\<close> of the series in order, the pair
  \<open>(LAST_YEAR - (last_year_index - i), value_i)\<close>, keeping only the pairs whose year is
  at most \<open>LAST_YEAR\<close> when \<open>exclude_future\<close> is set.
\<close>

theorem C3_year_stat:
  "(map_of s stat = None \<or> map_of s stat = Some (VList []) \<longrightarrow>
      year_stat ly s stat ex = Inr [(0, VNum 0)])
   \<and> (map_of s stat = Some (VList vs) \<and> vs \<noteq> [] \<and>
        (map_of s ''last_year_index'' = None \<or> map_of s ''last_year_index'' = Some VNone) \<longrightarrow>
      year_stat ly s stat ex = Inl AssertionError)
   \<and> (map_of s stat = Some (VList vs) \<and> vs \<noteq> [] \<and>
        map_of s ''last_year_index'' = Some (VNum l) \<longrightarrow>
      year_stat ly s stat ex =
        Inr (filter (\<lambda>p. \<not> ex \<or> fst p \<le> real_of_int ly)
               (map (\<lambda>i. (real_of_int ly - (l - real i), vs ! i)) [0..<length vs])))"
proof (intro conjI impI)
  assume "map_of s stat = None \<or> map_of s stat = Some (VList [])"
  then show "year_stat ly s stat ex = Inr [(0, VNum 0)]"
    by (auto simp: year_stat_def get_field_def)
next
  assume "map_of s stat = Some (VList vs) \<and> vs \<noteq> [] \<and>
        (map_of s ''last_year_index'' = None \<or> map_of s ''last_year_index'' = Some VNone)"
  then show "year_stat ly s stat ex = Inl AssertionError"
    by (auto simp: year_stat_def get_field_def)
next
  assume a: "map_of s stat = Some (VList vs) \<and> vs \<noteq> [] \<and>
        map_of s ''last_year_index'' = Some (VNum l)"
  have "year_stat ly s stat ex = year_rows ly (VNum l) ex 0 vs"
    using a by (simp add: year_stat_def get_field_def)
  then show "year_stat ly s stat ex =
        Inr (filter (\<lambda>p. \<not> ex \<or> fst p \<le> real_of_int ly)
               (map (\<lambda>i. (real_of_int ly - (l - real i), vs ! i)) [0..<length vs]))"
    by (simp add: year_rows_num)
qed

text \<open>
  The three cases at concrete records, with \<open>LAST_YEAR = 2025\<close>: no series; a
  five-element series with \<open>last_year_index = 3\<close> (so its last entry is dated 2026) with
  and without \<open>exclude_future\<close>; the same series without \<open>last_year_index\<close>.
\<close>

theorem C3_year_stat_witness:
  "year_stat 2025 [(''code'', VStr ''005930'')] ''ROEs'' True = Inr [(0, VNum 0)]
   \<and> year_stat 2025 [(''ROEs'', VList [])] ''ROEs'' True = Inr [(0, VNum 0)]
   \<and> year_stat 2025 [(''ROEs'', VList [VNum 7, VNum 8])] ''ROEs'' False = Inl AssertionError
   \<and> year_stat 2025
        [(''PBRs'', VList [VNum 1, VNum 2, VNone, VNum 4, VNum 5]), (''last_year_index'', VNum 3)]
        ''PBRs'' True
      = Inr [(2022, VNum 1), (2023, VNum 2), (2024, VNone), (2025, VNum 4)]
   \<and> year_stat 2025
        [(''PBRs'', VList [VNum 1, VNum 2, VNone, VNum 4, VNum 5]), (''last_year_index'', VNum 3)]
        ''PBRs'' False
      = Inr [(2022, VNum 1), (2023, VNum 2), (2024, VNone), (2025, VNum 4), (2026, VNum 5)]"
proof -
  let ?vs = "[VNum 1, VNum 2, VNone, VNum 4, VNum 5]"
  let ?s = "[(''PBRs'', VList ?vs), (''last_year_index'', VNum 3)]"
  have up: "[0..<5] = [0, 1, 2, 3, 4]"
    by (simp add: upt_rec)
  have 1: "year_stat 2025 [(''code'', VStr ''005930'')] ''ROEs'' True = Inr [(0, VNum 0)]"
    using C3_year_stat [of "[(''code'', VStr ''005930'')]" "''ROEs''" 2025 True] by simp
  have 2: "year_stat 2025 [(''ROEs'', VList [])] ''ROEs'' True = Inr [(0, VNum 0)]"
    using C3_year_stat [of "[(''ROEs'', VList [])]" "''ROEs''" 2025 True] by simp
  have 3: "year_stat 2025 [(''ROEs'', VList [VNum 7, VNum 8])] ''ROEs'' False = Inl AssertionError"
    using C3_year_stat [of "[(''ROEs'', VList [VNum 7, VNum 8])]" "''ROEs''" 2025 False
        "[VNum 7, VNum 8]"] by simp
  have 4: "year_stat 2025 ?s ''PBRs'' True
      = Inr [(2022, VNum 1), (2023, VNum 2), (2024, VNone), (2025, VNum 4)]"
    using C3_year_stat [of ?s "''PBRs''" 2025 True ?vs 3] by (simp add: up)
  have 5: "year_stat 2025 ?s ''PBRs'' False
      = Inr [(2022, VNum 1), (2023, VNum 2), (2024, VNone), (2025, VNum 4), (2026, VNum 5)]"
    using C3_year_stat [of ?s "''PBRs''" 2025 False ?vs 3] by (simp add: up)
  from 1 2 3 4 5 show ?thesis by blast
qed

section \<open>The projection at the spec's example values\<close>

lemma py_int_future_bps: "py_int (10000 * (1 + (1 * 10 / 100)) powi 10) = 25937"
  by (simp add: py_int_def floor_eq_iff power_divide)

lemma py_int_invest_price: "py_int (25937 / ((1 + (1 * 15 / 100)) powi 10)) = 6411"
  by (simp add: py_int_def floor_eq_iff power_divide)

text \<open>
  Claim C2, as amended.  For a record with \<open>bps = 10000\<close>, no \<open>adjusted_future_roe\<close>
  override (absent or 0) and \<open>future_roe = 10\<close>, \<open>calc_future_bps(10)\<close> is
  \<open>int(10000 * 1.10 ** 10) = 25937\<close>; and for a record whose \<open>future_bps\<close> is 25937,
  \<open>invest_price\<close> is \<open>int(25937 / 1.15 ** 10) = 6411\<close> (the quotient is 6411.2297...),
  with \<open>TARGET_RATE = 15\<close> and \<open>FUTURE = 10\<close>.
\<close>

theorem C2_projection:
  "(map_of s ''bps'' = Some (VNum 10000)
      \<and> (map_of s ''adjusted_future_roe'' = None \<or> map_of s ''adjusted_future_roe'' = Some (VNum 0))
      \<and> future_roe ly s = Inr 10
      \<longrightarrow> calc_future_bps ly s 10 = Inr 25937)
   \<and> (future_bps ly s = Inr 25937 \<longrightarrow> invest_price ly s = Inr 6411)"
proof (intro conjI impI)
  assume a: "map_of s ''bps'' = Some (VNum 10000)
      \<and> (map_of s ''adjusted_future_roe'' = None \<or> map_of s ''adjusted_future_roe'' = Some (VNum 0))
      \<and> future_roe ly s = Inr 10"
  then have roe: "adjusted_or_future_roe ly s = Inr (VNum 10)"
    by (auto simp: adjusted_or_future_roe_def get_field_def)
  have bps: "get_field s ''bps'' (VNum 0) = VNum 10000"
    using a by (simp add: get_field_def)
  have "calculable ly s = Inr True"
    by (simp add: calculable_def bps roe py_gt0_def)
  then show "calc_future_bps ly s 10 = Inr 25937"
    using py_int_future_bps by (simp add: calc_future_bps_def bps roe py_pow_int_def)
next
  assume "future_bps ly s = Inr 25937"
  then show "invest_price ly s = Inr 6411"
    using py_int_invest_price
    by (simp add: future_bps_def invest_price_def TARGET_RATE_def FUTURE_def)
qed

lemma example_future_roe:
  "future_roe 2025 [(''code'', VStr ''005930''), (''bps'', VNum 10000),
       (''ROEs'', VList [VNum 10, VNum 10, VNum 10, VNum 10]), (''last_year_index'', VNum 3),
       (''current_price'', VNum 20000)] = Inr 10"
  by (simp add: future_roe_def mean_roe_def last_four_years_roe_def year_stat_def get_field_def
      mean_py_def dividend_tax_adjust_def year_of_def)

text \<open>The record of the example: four years of ROE 10, no dividend.\<close>

theorem C2_projection_witness:
  "calc_future_bps 2025 [(''code'', VStr ''005930''), (''bps'', VNum 10000),
       (''ROEs'', VList [VNum 10, VNum 10, VNum 10, VNum 10]), (''last_year_index'', VNum 3),
       (''current_price'', VNum 20000)] 10 = Inr 25937
   \<and> invest_price 2025 [(''code'', VStr ''005930''), (''bps'', VNum 10000),
       (''ROEs'', VList [VNum 10, VNum 10, VNum 10, VNum 10]), (''last_year_index'', VNum 3),
       (''current_price'', VNum 20000)] = Inr 6411"
proof -
  let ?s = "[(''code'', VStr ''005930''), (''bps'', VNum 10000),
       (''ROEs'', VList [VNum 10, VNum 10, VNum 10, VNum 10]), (''last_year_index'', VNum 3),
       (''current_price'', VNum 20000)]"
  have 1: "calc_future_bps 2025 ?s 10 = Inr 25937"
    using C2_projection [of ?s 2025] example_future_roe by simp
  then have "future_bps 2025 ?s = Inr 25937"
    by (simp add: future_bps_def FUTURE_def)
  then have 2: "invest_price 2025 ?s = Inr 6411"
    using C2_projection [of ?s 2025] by simp
  from 1 2 show ?thesis by simp
qed

text \<open>
  Claim C2 as stated gives 6412 for \<open>invest_price\<close>; on the example record, whose
  \<open>future_bps\<close> is 25937, the code does not return 6412.
\<close>

theorem C2_invest_price_counterexample:
  "future_bps 2025 [(''code'', VStr ''005930''), (''bps'', VNum 10000),
       (''ROEs'', VList [VNum 10, VNum 10, VNum 10, VNum 10]), (''last_year_index'', VNum 3),
       (''current_price'', VNum 20000)] = Inr 25937
   \<and> invest_price 2025 [(''code'', VStr ''005930''), (''bps'', VNum 10000),
       (''ROEs'', VList [VNum 10, VNum 10, VNum 10, VNum 10]), (''last_year_index'', VNum 3),
       (''current_price'', VNum 20000)] \<noteq> Inr 6412"
proof -
  let ?s = "[(''code'', VStr ''005930''), (''bps'', VNum 10000),
       (''ROEs'', VList [VNum 10, VNum 10, VNum 10, VNum 10]), (''last_year_index'', VNum 3),
       (''current_price'', VNum 20000)]"
  have roe: "adjusted_or_future_roe 2025 ?s = Inr (VNum 10)"
    using example_future_roe by (simp add: adjusted_or_future_roe_def get_field_def)
  have "calculable 2025 ?s = Inr True"
    by (simp add: calculable_def roe py_gt0_def get_field_def)
  then have b: "calc_future_bps 2025 ?s 10 = Inr 25937"
    using py_int_future_bps by (simp add: calc_future_bps_def roe py_pow_int_def get_field_def)
  then have "invest_price 2025 ?s = Inr 6411"
    using py_int_invest_price by (simp add: invest_price_def TARGET_RATE_def FUTURE_def)
  with b show ?thesis
    by (simp add: future_bps_def FUTURE_def)
qed

section \<open>calc_expected_rate\<close>

lemma calc_expected_rate_nonneg:
  assumes "f fut = Inr b" "p \<noteq> 0" "0 < fut" "0 \<le> real_of_int b / p"
  shows "calc_expected_rate s f fut (Some p)
         = Inr (VNum (((real_of_int b / p) powr (1 / real_of_int fut) - 1) * 100))"
proof (cases "real_of_int b / p = 0")
  case True
  then show ?thesis
    using assms by (simp add: calc_expected_rate_def py_pow_def)
next
  case False
  then have "0 < real_of_int b / p"
    using assms(4) by linarith
  then show ?thesis
    using assms by (simp add: calc_expected_rate_def py_pow_def)
qed

text \<open>
  Claim C9.  \<open>calc_expected_rate(price_fn, future, price)\<close> uses \<open>current_price\<close> in place
  of a price that is absent or zero: a call without a price and a call with price 0 are
  the same call, and both are the call with the record's \<open>current_price\<close> when that is
  a non-zero number.  With a non-zero price \<open>p\<close> (and a positive horizon and a
  non-negative quotient, so that the root is a real number) the result is
  \<open>((price_fn(future) / p) ^ (1 / future) - 1) * 100\<close>.  When the price is absent or zero
  and \<open>current_price\<close> is absent or zero as well, the division raises
  \<open>ZeroDivisionError\<close>.
\<close>

theorem C9_calc_expected_rate:
  "calc_expected_rate s f fut None = calc_expected_rate s f fut (Some 0)
   \<and> (current_price s = VNum c \<and> c \<noteq> 0 \<longrightarrow>
        calc_expected_rate s f fut None = calc_expected_rate s f fut (Some c))
   \<and> (f fut = Inr b \<and> p \<noteq> 0 \<and> 0 < fut \<and> 0 \<le> real_of_int b / p \<longrightarrow>
        calc_expected_rate s f fut (Some p)
        = Inr (VNum (((real_of_int b / p) powr (1 / real_of_int fut) - 1) * 100)))
   \<and> (f fut = Inr b \<and> (price = None \<or> price = Some 0)
        \<and> (map_of s ''current_price'' = None \<or> map_of s ''current_price'' = Some (VNum 0)) \<longrightarrow>
        calc_expected_rate s f fut price = Inl ZeroDivisionError)"
proof (intro conjI impI)
  show "calc_expected_rate s f fut None = calc_expected_rate s f fut (Some 0)"
    by (simp add: calc_expected_rate_def)
next
  assume "current_price s = VNum c \<and> c \<noteq> 0"
  then show "calc_expected_rate s f fut None = calc_expected_rate s f fut (Some c)"
    by (simp add: calc_expected_rate_def)
next
  assume "f fut = Inr b \<and> p \<noteq> 0 \<and> 0 < fut \<and> 0 \<le> real_of_int b / p"
  then show "calc_expected_rate s f fut (Some p)
        = Inr (VNum (((real_of_int b / p) powr (1 / real_of_int fut) - 1) * 100))"
    by (simp add: calc_expected_rate_nonneg)
next
  assume a: "f fut = Inr b \<and> (price = None \<or> price = Some 0)
        \<and> (map_of s ''current_price'' = None \<or> map_of s ''current_price'' = Some (VNum 0))"
  then have "current_price s = VNum 0"
    by (auto simp: current_price_def get_field_def)
  then show "calc_expected_rate s f fut price = Inl ZeroDivisionError"
    using a by (auto simp: calc_expected_rate_def)
qed

text \<open>
  At a price function that returns 25937: a record priced 20000 and no supplied price, and
  a record without \<open>current_price\<close>.
\<close>

theorem C9_calc_expected_rate_witness:
  "calc_expected_rate [(''current_price'', VNum 20000)] (\<lambda>n. Inr 25937) 10 None
     = Inr (VNum (((25937 / 20000) powr (1 / 10) - 1) * 100))
   \<and> calc_expected_rate [(''code'', VStr ''005930'')] (\<lambda>n. Inr 25937) 10 (Some 0)
     = Inl ZeroDivisionError"
proof -
  let ?s = "[(''current_price'', VNum 20000)]"
  let ?f = "\<lambda>n::int. (Inr 25937 :: py_error + int)"
  have cp: "current_price ?s = VNum 20000"
    by (simp add: current_price_def get_field_def)
  have "calc_expected_rate ?s ?f 10 None = calc_expected_rate ?s ?f 10 (Some 20000)"
    using C9_calc_expected_rate [where s = ?s and f = ?f and fut = 10 and c = 20000,
        THEN conjunct2, THEN conjunct1] cp by simp
  moreover have "calc_expected_rate ?s ?f 10 (Some 20000)
      = Inr (VNum (((25937 / 20000) powr (1 / 10) - 1) * 100))"
    using C9_calc_expected_rate [where s = ?s and f = ?f and fut = 10 and b = 25937 and p = 20000,
        THEN conjunct2, THEN conjunct2, THEN conjunct1]
    by simp
  moreover have "calc_expected_rate [(''code'', VStr ''005930'')] ?f 10 (Some 0)
      = Inl ZeroDivisionError"
    using C9_calc_expected_rate [where s = "[(''code'', VStr ''005930'')]" and f = ?f and fut = 10
        and b = 25937 and price = "Some 0", THEN conjunct2, THEN conjunct2, THEN conjunct2]
    by simp
  ultimately show ?thesis by simp
qed

section \<open>The store operations\<close>




lemma filter_no_match:
  "\<forall>p \<in> set pre. \<not> matches p q \<Longrightarrow> filter (\<lambda>d. matches d q) pre = []"
  by (induction pre) auto

lemma find_one_first:
  "\<forall>p \<in> set pre. \<not> matches p q \<Longrightarrow> matches d q \<Longrightarrow> find_one q (pre @ d # post) = Some d"
  by (simp add: find_one_def filter_no_match)

lemma find_one_none:
  "\<forall>p \<in> set st. \<not> matches p q \<Longrightarrow> find_one q st = None"
  by (simp add: find_one_def filter_no_match)




lemma matches_code_str:
  "map_of d ''code'' = Some (VStr c) \<Longrightarrow> matches d (QEq ''code'' (VStr c'))  = (c' = c)"
  by auto

lemma matches_code_absent:
  "map_of d ''code'' = None \<Longrightarrow> \<not> matches d (QEq ''code'' (VStr c))"
  by simp

text \<open>
  Claim C5, as amended.  \<open>stock_by_code(code)\<close> returns a model instance wrapping the
  first record whose \<open>code\<close> field matches the given code (the only one, when codes are
  unique).  When no record matches it does not fail: \<open>Stock(None)\<close> is an instance
  without fields, and that is what comes back.
\<close>

theorem C5_stock_by_code:
  "(st = pre @ d # post \<and> map_of d ''code'' = Some (VStr c)
      \<and> (\<forall>p \<in> set pre. \<not> matches p (QEq ''code'' (VStr c)))
      \<longrightarrow> stock_by_code (VStr c) st = d)
   \<and> ((\<forall>p \<in> set st. \<not> matches p (QEq ''code'' (VStr c)))
      \<longrightarrow> stock_by_code (VStr c) st = [])"
proof (intro conjI impI)
  assume a: "st = pre @ d # post \<and> map_of d ''code'' = Some (VStr c)
      \<and> (\<forall>p \<in> set pre. \<not> matches p (QEq ''code'' (VStr c)))"
  then have "matches d (QEq ''code'' (VStr c))" by simp
  with a have "find_one (QEq ''code'' (VStr c)) st = Some d"
    by (simp add: find_one_first)
  then show "stock_by_code (VStr c) st = d"
    by (simp add: stock_by_code_def Stock_def)
next
  assume "\<forall>p \<in> set st. \<not> matches p (QEq ''code'' (VStr c))"
  then have "find_one (QEq ''code'' (VStr c)) st = None"
    by (rule find_one_none)
  then show "stock_by_code (VStr c) st = []"
    by (simp add: stock_by_code_def Stock_def)
qed

text \<open>A collection of two records: the second is found by its code; an unknown code
  gives the empty instance.\<close>

theorem C5_stock_by_code_witness:
  "stock_by_code (VStr ''000660'')
     [[(''_id'', VObjectId 1), (''code'', VStr ''005930''), (''title'', VStr ''Samsung'')],
      [(''_id'', VObjectId 2), (''code'', VStr ''000660''), (''title'', VStr ''Hynix'')]]
   = [(''_id'', VObjectId 2), (''code'', VStr ''000660''), (''title'', VStr ''Hynix'')]
   \<and> stock_by_code (VStr ''035420'')
     [[(''_id'', VObjectId 1), (''code'', VStr ''005930''), (''title'', VStr ''Samsung'')],
      [(''_id'', VObjectId 2), (''code'', VStr ''000660''), (''title'', VStr ''Hynix'')]]
   = []"
proof -
  let ?a = "[(''_id'', VObjectId 1), (''code'', VStr ''005930''), (''title'', VStr ''Samsung'')]"
  let ?b = "[(''_id'', VObjectId 2), (''code'', VStr ''000660''), (''title'', VStr ''Hynix'')]"
  have 1: "stock_by_code (VStr ''000660'') [?a, ?b] = ?b"
    using C5_stock_by_code [where st = "[?a, ?b]" and pre = "[?a]" and d = ?b and post = "[]"
        and c = "''000660''", THEN conjunct1]
    by simp
  have 2: "stock_by_code (VStr ''035420'') [?a, ?b] = []"
    using C5_stock_by_code [where st = "[?a, ?b]" and c = "''035420''", THEN conjunct2]
    by simp
  from 1 2 show ?thesis by simp
qed

text \<open>
  Claim C5 as stated has the lookup of an unknown code fail.  It returns: the result is
  an empty \<open>Stock\<close>, whose accessors work (its \<open>current_price\<close> is the default 0).
\<close>

theorem C5_not_found_counterexample:
  "stock_by_code (VStr ''035420'')
     [[(''_id'', VObjectId 1), (''code'', VStr ''005930''), (''title'', VStr ''Samsung'')]]
   = Stock None
   \<and> current_price (stock_by_code (VStr ''035420'')
     [[(''_id'', VObjectId 1), (''code'', VStr ''005930''), (''title'', VStr ''Samsung'')]])
   = VNum 0"
  by (simp add: stock_by_code_def find_one_def Stock_def current_price_def get_field_def)

section \<open>save_stock\<close>








section \<open>The flag toggle\<close>








section \<open>The daily snapshot\<close>










section \<open>all_stocks\<close>

lemma filter_stocks_Inr:
  "filter_stocks ly fb ds = Inr ss \<Longrightarrow>
     ss = filter (\<lambda>s. \<exists>r. expected_rate ly s = Inr (VNum r) \<and> (if fb then 0 < r else r < 0)) ds
     \<and> (\<forall>s \<in> set ds. \<exists>v. expected_rate ly s = Inr v)"
proof (induction ds arbitrary: ss)
  case Nil
  then show ?case by simp
next
  case (Cons d ds)
  from Cons.prems obtain rate keep rest
    where rate: "expected_rate ly d = Inr rate"
      and keep: "(if fb then py_gt0 rate else py_lt0 rate) = Inr keep"
      and rest: "filter_stocks ly fb ds = Inr rest"
      and ss: "ss = (if keep then d # rest else rest)"
    by (auto simp: Stock_def split: sum.splits)
  from keep obtain x where x: "num_of rate = Some x" and k: "keep = (if fb then 0 < x else x < 0)"
    by (auto simp: py_gt0_def py_lt0_def split: option.splits if_splits)
  have rshape: "(\<exists>r. rate = VNum r) \<or> (\<exists>z. rate = VComplex z)"
    using rate
    by (auto simp: expected_rate_def calc_expected_rate_def py_pow_def Let_def
        split: sum.splits option.splits if_splits pyval.splits)
  with x have "rate = VNum x" by auto
  with rate k have "keep = (\<exists>r. expected_rate ly d = Inr (VNum r) \<and> (if fb then 0 < r else r < 0))"
    by auto
  with Cons.IH [OF rest] ss rate show ?case by auto
qed














section \<open>The list operation at example records\<close>

text \<open>The rate of the example record at any positive price, and its sign.\<close>

lemma example_rate:
  assumes "map_of s ''bps'' = Some (VNum 10000)"
    and "map_of s ''ROEs'' = Some (VList [VNum 10, VNum 10, VNum 10, VNum 10])"
    and "map_of s ''last_year_index'' = Some (VNum 3)"
    and "map_of s ''dividend_rate'' = None"
    and "map_of s ''adjusted_future_roe'' = None"
    and "map_of s ''current_price'' = Some (VNum p)" and "0 < p"
  shows "expected_rate 2025 s = Inr (VNum (((25937 / p) powr (1 / 10) - 1) * 100))"
proof -
  have fr: "future_roe 2025 s = Inr 10"
    using assms
    by (simp add: future_roe_def mean_roe_def last_four_years_roe_def year_stat_def get_field_def
        mean_py_def dividend_tax_adjust_def year_of_def)
  have roe: "adjusted_or_future_roe 2025 s = Inr (VNum 10)"
    using assms(5) fr by (simp add: adjusted_or_future_roe_def get_field_def)
  have "calculable 2025 s = Inr True"
    using assms(1) by (simp add: calculable_def roe py_gt0_def get_field_def)
  then have b: "calc_future_bps 2025 s 10 = Inr 25937"
    using py_int_future_bps assms(1)
    by (simp add: calc_future_bps_def roe py_pow_int_def get_field_def)
  have "calc_expected_rate s (calc_future_bps 2025 s) 10 None
      = calc_expected_rate s (calc_future_bps 2025 s) 10 (Some p)"
    using assms(6,7) by (simp add: calc_expected_rate_def current_price_def get_field_def)
  also have "\<dots> = Inr (VNum (((real_of_int 25937 / p) powr (1 / real_of_int 10) - 1) * 100))"
    using assms(7)
    by (intro calc_expected_rate_nonneg [where f = "calc_future_bps 2025 s" and fut = 10
          and b = 25937 and p = p, OF b]) simp_all
  finally show ?thesis
    by (simp add: expected_rate_def FUTURE_def)
qed

lemma rate_sign:
  assumes "0 < (q::real)"
  shows "(0 < (q powr (1 / 10) - 1) * 100) = (1 < q)"
    and "((q powr (1 / 10) - 1) * 100 < 0) = (q < 1)"
proof -
  have less: "(q powr (1 / 10) < 1) = (q < 1)"
  proof
    assume "q < 1"
    with assms show "q powr (1 / 10) < 1" by (simp add: powr01_less_one)
  next
    assume h: "q powr (1 / 10) < 1"
    show "q < 1"
    proof (rule ccontr)
      assume "\<not> q < 1"
      then have "1 \<le> q" by simp
      then have "1 \<le> q powr (1 / 10)" by (simp add: ge_one_powr_ge_zero)
      with h show False by simp
    qed
  qed
  have gt: "(1 < q powr (1 / 10)) = (1 < q)"
  proof
    assume "1 < q"
    then show "1 < q powr (1 / 10)" by (simp add: gr_one_powr)
  next
    assume h: "1 < q powr (1 / 10)"
    show "1 < q"
    proof (rule ccontr)
      assume "\<not> 1 < q"
      with assms have "0 \<le> (1 / 10 :: real)" "\<bar>q\<bar> \<le> 1" by simp_all
      then have "q powr (1 / 10) \<le> 1" by (rule powr_le1)
      with h show False by simp
    qed
  qed
  show "(0 < (q powr (1 / 10) - 1) * 100) = (1 < q)"
    using gt by (simp add: zero_less_mult_iff)
  show "((q powr (1 / 10) - 1) * 100 < 0) = (q < 1)"
    using less by (simp add: mult_less_0_iff)
qed


section \<open>A record without a price\<close>

lemma zero_price_raises:
  assumes "map_of d ''current_price'' = None \<or> map_of d ''current_price'' = Some (VNum 0)"
  shows "\<exists>e. expected_rate ly d = Inl e"
    and "calc_future_bps ly d FUTURE = Inr b \<Longrightarrow> expected_rate ly d = Inl ZeroDivisionError"
proof -
  have cp: "current_price d = VNum 0"
    using assms by (auto simp: current_price_def get_field_def)
  show "\<exists>e. expected_rate ly d = Inl e"
    by (cases "calc_future_bps ly d FUTURE")
       (simp_all add: expected_rate_def calc_expected_rate_def cp)
  show "calc_future_bps ly d FUTURE = Inr b \<Longrightarrow> expected_rate ly d = Inl ZeroDivisionError"
    by (simp add: expected_rate_def calc_expected_rate_def cp)
qed

lemma filter_stocks_first_error:
  assumes "\<forall>p \<in> set pre. \<exists>r. expected_rate ly p = Inr (VNum r)"
    and "expected_rate ly d = Inl e"
  shows "filter_stocks ly fb (pre @ d # post) = Inl e"
  using assms(1)
proof (induction pre)
  case Nil
  show ?case using assms(2) by (simp add: Stock_def)
next
  case (Cons a pre)
  then obtain r where "expected_rate ly a = Inr (VNum r)" by auto
  moreover have "filter_stocks ly fb (pre @ d # post) = Inl e"
    using Cons by simp
  ultimately show ?case
    by (cases fb) (simp_all add: Stock_def py_gt0_def py_lt0_def)
qed

text \<open>
  Claim C10, as amended.  The \<open>current_price\<close> accessor is 0 when the field is absent,
  and \<open>all_stocks\<close> evaluates \<open>expected_rate\<close> on every record it fetches.  So if a
  record that the call fetches (any record when there is no status filter, a matching
  one otherwise) has \<open>current_price\<close> absent or 0, the call raises and returns no list.
  The error is the division by zero when the records fetched before it have a real
  rate and its own projection of the book value returns.
\<close>

theorem C10_zero_price:
  "(map_of d ''current_price'' = None \<longrightarrow> current_price d = VNum 0)
   \<and> (d \<in> set (find_docs fnd st)
        \<and> (map_of d ''current_price'' = None \<or> map_of d ''current_price'' = Some (VNum 0))
        \<longrightarrow> (\<exists>e. all_stocks ly order_by ordr fnd filter_bad st = Inl e))
   \<and> (find_docs fnd st = pre @ d # post
        \<and> (\<forall>p \<in> set pre. \<exists>r. expected_rate ly p = Inr (VNum r))
        \<and> (\<exists>b. calc_future_bps ly d FUTURE = Inr b)
        \<and> (map_of d ''current_price'' = None \<or> map_of d ''current_price'' = Some (VNum 0))
        \<longrightarrow> all_stocks ly order_by ordr fnd filter_bad st = Inl ZeroDivisionError)"
proof (intro conjI impI)
  assume "map_of d ''current_price'' = None"
  then show "current_price d = VNum 0"
    by (simp add: current_price_def get_field_def)
next
  assume a: "d \<in> set (find_docs fnd st)
        \<and> (map_of d ''current_price'' = None \<or> map_of d ''current_price'' = Some (VNum 0))"
  then obtain e where e: "expected_rate ly d = Inl e"
    using zero_price_raises(1) by blast
  show "\<exists>e. all_stocks ly order_by ordr fnd filter_bad st = Inl e"
  proof (cases "filter_stocks ly filter_bad (find_docs fnd st)")
    case (Inl err)
    then show ?thesis by (simp add: all_stocks_def)
  next
    case (Inr ss)
    from filter_stocks_Inr [OF Inr] a have "\<exists>v. expected_rate ly d = Inr v" by blast
    with e show ?thesis by simp
  qed
next
  assume a: "find_docs fnd st = pre @ d # post
        \<and> (\<forall>p \<in> set pre. \<exists>r. expected_rate ly p = Inr (VNum r))
        \<and> (\<exists>b. calc_future_bps ly d FUTURE = Inr b)
        \<and> (map_of d ''current_price'' = None \<or> map_of d ''current_price'' = Some (VNum 0))"
  then have "expected_rate ly d = Inl ZeroDivisionError"
    using zero_price_raises(2) by blast
  with a have "filter_stocks ly filter_bad (find_docs fnd st) = Inl ZeroDivisionError"
    by (simp add: filter_stocks_first_error)
  then show "all_stocks ly order_by ordr fnd filter_bad st = Inl ZeroDivisionError"
    by (simp add: all_stocks_def)
qed

text \<open>
  A collection of a good record and a record priced 0: the unfiltered list fails with the
  division by zero.
\<close>

theorem C10_zero_price_witness:
  "all_stocks 2025 ''expected_rate'' ''desc'' None True
     [[(''code'', VStr ''000001''), (''bps'', VNum 10000),
           (''ROEs'', VList [VNum 10, VNum 10, VNum 10, VNum 10]), (''last_year_index'', VNum 3),
           (''current_price'', VNum 20000)],
      [(''code'', VStr ''000009''), (''bps'', VNum 10000),
           (''ROEs'', VList [VNum 10, VNum 10, VNum 10, VNum 10]), (''last_year_index'', VNum 3),
           (''current_price'', VNum 0)]]
   = Inl ZeroDivisionError"
proof -
  let ?A = "[(''code'', VStr ''000001''), (''bps'', VNum 10000),
           (''ROEs'', VList [VNum 10, VNum 10, VNum 10, VNum 10]), (''last_year_index'', VNum 3),
           (''current_price'', VNum 20000)]"
  let ?Z = "[(''code'', VStr ''000009''), (''bps'', VNum 10000),
           (''ROEs'', VList [VNum 10, VNum 10, VNum 10, VNum 10]), (''last_year_index'', VNum 3),
           (''current_price'', VNum 0)]"
  have "expected_rate 2025 ?A = Inr (VNum (((25937 / 20000) powr (1 / 10) - 1) * 100))"
    by (rule example_rate) simp_all
  then have rA: "\<exists>r. expected_rate 2025 ?A = Inr (VNum r)"
    by blast
  have fr: "future_roe 2025 ?Z = Inr 10"
    by (simp add: future_roe_def mean_roe_def last_four_years_roe_def year_stat_def get_field_def
        mean_py_def dividend_tax_adjust_def year_of_def)
  have roe: "adjusted_or_future_roe 2025 ?Z = Inr (VNum 10)"
    using fr by (simp add: adjusted_or_future_roe_def get_field_def)
  have "calculable 2025 ?Z = Inr True"
    by (simp add: calculable_def roe py_gt0_def get_field_def)
  then have bZ: "calc_future_bps 2025 ?Z FUTURE = Inr 25937"
    using py_int_future_bps
    by (simp add: calc_future_bps_def roe py_pow_int_def get_field_def FUTURE_def)
  show ?thesis
    using C10_zero_price [where d = ?Z and fnd = None and st = "[?A, ?Z]" and pre = "[?A]"
        and post = "[]" and ly = 2025 and order_by = "''expected_rate''" and ordr = "''desc''"
        and filter_bad = True, THEN conjunct2, THEN conjunct2] rA bZ
    by (simp add: find_docs_def)
qed

text \<open>
  Claim C10 as stated has every list view fail, for any status filter.  The record priced
  0 is not starred, so the starred view does not fetch it: the view returns (an empty
  list, here).
\<close>

theorem C10_status_filter_counterexample:
  "stocks 2025 (Some ''starred'') ''expected_rate'' ''desc''
     [[(''code'', VStr ''000009''), (''bps'', VNum 10000),
           (''ROEs'', VList [VNum 10, VNum 10, VNum 10, VNum 10]), (''last_year_index'', VNum 3),
           (''current_price'', VNum 0)]]
   = Inr []"
  by (simp add: stocks_def status_filter_def all_stocks_def find_docs_def py_sorted_def)

section \<open>The fill route\<close>

lemma no_fill_snowball_stat: "getattr_stock ly ''fill_snowball_stat'' s = Inl AttributeError"
  by (simp add: getattr_stock_def stock_properties_def unmodelled_properties_def
      other_attributes_def)

lemma fill_each_raises: "listed \<noteq> [] \<Longrightarrow> fill_each ly day listed st = Inl AttributeError"
  by (cases listed) (simp_all add: no_fill_snowball_stat)

lemma fill_route_cases:
  "all_stocks ly ''title'' ''asc'' None True st = Inr listed \<Longrightarrow>
     stocks_fill_snowball_stats ly day st = (if listed = [] then Inr st else Inl AttributeError)"
  by (simp add: stocks_fill_snowball_stats_def fill_each_raises)

text \<open>
  Claim C4.  The claim has the route \<open>/stocks/fill\<close> run the daily snapshot on every
  listed stock and redirect.  The handler calls \<open>s.fill_snowball_stat()\<close>, and no such
  attribute exists on \<open>Stock\<close>.  With one starred record of positive rate in the
  collection, the route raises \<open>AttributeError\<close> and nothing is written.
\<close>

theorem C4_fill_route_raises:
  "all_stocks 2025 ''title'' ''asc'' None True
     [[(''_id'', VObjectId 7), (''code'', VStr ''005930''), (''title'', VStr ''Samsung''),
           (''starred'', VBool True), (''bps'', VNum 10000),
           (''ROEs'', VList [VNum 10, VNum 10, VNum 10, VNum 10]), (''last_year_index'', VNum 3),
           (''current_price'', VNum 20000)]]
   = Inr [[(''_id'', VObjectId 7), (''code'', VStr ''005930''), (''title'', VStr ''Samsung''),
           (''starred'', VBool True), (''bps'', VNum 10000),
           (''ROEs'', VList [VNum 10, VNum 10, VNum 10, VNum 10]), (''last_year_index'', VNum 3),
           (''current_price'', VNum 20000)]]
   \<and> stocks_fill_snowball_stats 2025 20000
     [[(''_id'', VObjectId 7), (''code'', VStr ''005930''), (''title'', VStr ''Samsung''),
           (''starred'', VBool True), (''bps'', VNum 10000),
           (''ROEs'', VList [VNum 10, VNum 10, VNum 10, VNum 10]), (''last_year_index'', VNum 3),
           (''current_price'', VNum 20000)]]
   = Inl AttributeError"
proof -
  let ?S = "[(''_id'', VObjectId 7), (''code'', VStr ''005930''), (''title'', VStr ''Samsung''),
           (''starred'', VBool True), (''bps'', VNum 10000),
           (''ROEs'', VList [VNum 10, VNum 10, VNum 10, VNum 10]), (''last_year_index'', VNum 3),
           (''current_price'', VNum 20000)]"
  have r: "expected_rate 2025 ?S = Inr (VNum (((25937 / 20000) powr (1 / 10) - 1) * 100))"
    by (rule example_rate) simp_all
  have pos: "0 < ((25937 / 20000) powr (1 / 10) - 1) * (100::real)"
    using rate_sign(1) [of "25937 / 20000"] by simp
  have f: "filter_stocks 2025 True [?S] = Inr [?S]"
    using pos by (simp add: Stock_def r py_gt0_def)
  have k: "attr_or_key_getter 2025 ''title'' ?S = Inr (VStr ''Samsung'')"
    by (simp add: attr_or_key_getter_def getattr_stock_def stock_properties_def
        unmodelled_properties_def other_attributes_def get_field_def)
  have listed: "all_stocks 2025 ''title'' ''asc'' None True [?S] = Inr [?S]"
    apply (simp only: all_stocks_def find_docs_def option.case f sum.case sort_keys.simps k)
    apply (simp add: py_sorted_def)
    done
  from fill_route_cases [OF listed, of 20000] listed show ?thesis
    by simp
qed

end
